theory Spec2Isabelle
  imports Main
begin

section \<open>nInstaller: data model\<close>

text \<open>
  The development embeds \<^verbatim>\<open>src/ninstaller.js\<close>. The installer fetches a manifest
  document, loads the manifest recorded in the local WebSQL database, computes the
  resources to install, downloads them one after the other and stores them.

  A resource descriptor is one element of \<^verbatim>\<open>manifest.js.resources\<close>: an object with
  the members \<^verbatim>\<open>path\<close>, \<^verbatim>\<open>md5\<close> and \<^verbatim>\<open>time\<close>, all strings. The member \<^verbatim>\<open>content\<close> is
  absent (\<open>None\<close>) until \<^verbatim>\<open>_fetchResources\<close> assigns it.
\<close>

record descriptor =
  path :: string
  md5 :: string
  time :: string
  content :: "string option"

text \<open>
  Descriptors are JavaScript objects: the arrays of a manifest hold references to them,
  \<^verbatim>\<open>[].concat(array)\<close> copies the references and \<^verbatim>\<open>res.content = content\<close> updates
  the object every holder of the reference sees. The object store maps each reference to
  the current value of the object it denotes.
\<close>

type_synonym ref = nat

type_synonym heap = "ref \<Rightarrow> descriptor"

text \<open>
  The object \<^verbatim>\<open>manifest.js\<close>. The manifest format gives it the member \<^verbatim>\<open>resources\<close>.
  Line 138 of the source reads the member \<^verbatim>\<open>resouces\<close>; reading a member an object
  does not have yields \<^verbatim>\<open>undefined\<close>, which is \<open>None\<close> here. A document that follows the
  manifest format has \<open>resouces = None\<close>.
\<close>

record js_obj =
  resources :: "ref list"
  resouces :: "ref list option"

record manifest =
  js :: js_obj

text \<open>
  The exceptions of the program: \<open>TypeError\<close> for a member read on \<^verbatim>\<open>undefined\<close> or
  \<^verbatim>\<open>null\<close>, \<open>SyntaxError\<close> for \<^verbatim>\<open>JSON.parse\<close> on a text that is not JSON, \<open>SQLError\<close>
  for a database transaction that cannot be carried out.
\<close>

datatype error = TypeError | SyntaxError | SQLError

section \<open>arrayToMap\<close>

text \<open>
  \<^verbatim>\<open>arrayToMap(array, key)\<close> starts from the empty object and assigns
  \<^verbatim>\<open>result[val[key]] = val\<close> for each element in turn. The member read \<^verbatim>\<open>val[key]\<close>
  is the function \<open>key\<close>; the resulting object is the map from member names to the
  values the assignments have set. For the name \<^verbatim>\<open>__proto__\<close> the assignment sets the
  prototype of the object, which a read of \<^verbatim>\<open>__proto__\<close> returns: the map holds it under
  that name. What a member read finds beyond the map, through the prototype, is
  \<open>read_member\<close> below.
\<close>

fun arrayToMap_loop :: "'a list \<Rightarrow> ('a \<Rightarrow> string) \<Rightarrow> (string \<rightharpoonup> 'a) \<Rightarrow> (string \<rightharpoonup> 'a)" where
  "arrayToMap_loop [] key result = result"
| "arrayToMap_loop (val # rest) key result = arrayToMap_loop rest key (result(key val \<mapsto> val))"

definition arrayToMap :: "'a list \<Rightarrow> ('a \<Rightarrow> string) \<Rightarrow> (string \<rightharpoonup> 'a)" where
  "arrayToMap array key = arrayToMap_loop array key Map.empty"

section \<open>The installer object and its surroundings\<close>

text \<open>
  The state a run reads and writes: the three fields of the \<^verbatim>\<open>nInstaller\<close> object (the
  source's leading underscore is dropped; \<open>None\<close> is \<^verbatim>\<open>null\<close>), the object store, the
  WebSQL database, the errors written to the console, and the number of times the
  caller's completion callback has been invoked.
\<close>

record database =
  manifest_table :: "string list option"
  js_table :: "(string \<rightharpoonup> descriptor) option"

record world =
  manifestUrl :: "string option"
  newManifest :: "manifest option"
  currentManifest :: "manifest option"
  heap :: heap
  database :: database
  console :: "error list"
  completions :: nat

text \<open>
  What the surroundings answer during one run. \<open>server url\<close> is the \<^verbatim>\<open>responseText\<close>
  of the load event of a GET request for \<open>url\<close>, and \<open>None\<close> when no load event ever
  arrives (the request fails). \<open>status url\<close> is the HTTP status of that answer: a load
  event arrives for an answer of any status, 404 and 500 included, and the program never
  reads \<^verbatim>\<open>xhr.status\<close>. \<open>JSON_parse text\<close> is the value \<^verbatim>\<open>JSON.parse\<close> returns,
  \<open>Inr None\<close> for \<^verbatim>\<open>null\<close>, or the exception it throws; the descriptor objects of the
  value it returns are cells of the object store. \<open>load_ok\<close> and \<open>save_ok\<close> tell
  whether the transaction of \<^verbatim>\<open>_loadCurrentManifest\<close> and of \<^verbatim>\<open>_saveResources\<close> can
  be carried out by the database engine.
\<close>

record env =
  server :: "string \<Rightarrow> string option"
  status :: "string \<Rightarrow> nat"
  JSON_parse :: "string \<Rightarrow> error + manifest option"
  load_ok :: bool
  save_ok :: bool

text \<open>
  How a step of the callback chain ends: it calls its callback with a value (for a
  synchronous step: it returns the value), it never calls it, or it throws.
\<close>

datatype 'a outcome = Called 'a | Stalled | Raised error

section \<open>_calcNewResource\<close>

text \<open>
  The read \<^verbatim>\<open>currentResourcesMap[name]\<close>. The object was created by \<^verbatim>\<open>{}\<close>, so a name
  the assignments have not set is looked up in its prototype: \<^verbatim>\<open>Object.prototype\<close>, with
  the members ECMAScript 5 gives it and those the browsers with \<^verbatim>\<open>openDatabase\<close> add.
  When an element with the path \<^verbatim>\<open>__proto__\<close> has made itself the prototype, its own
  members are found first. The read gives the descriptor the assignments have set, some
  inherited value (a function, a string or \<^verbatim>\<open>Object.prototype\<close>, none of which has a
  member \<^verbatim>\<open>md5\<close>), or \<^verbatim>\<open>undefined\<close>.
\<close>

definition Object_prototype_names :: "string list" where
  "Object_prototype_names =
     [''constructor'', ''toString'', ''toLocaleString'', ''valueOf'', ''hasOwnProperty'',
      ''isPrototypeOf'', ''propertyIsEnumerable'', ''__defineGetter__'', ''__defineSetter__'',
      ''__lookupGetter__'', ''__lookupSetter__'', ''__proto__'']"

definition member_names :: "descriptor \<Rightarrow> string list" where
  "member_names d =
     [''path'', ''md5'', ''time''] @ (case content d of None \<Rightarrow> [] | Some c \<Rightarrow> [''content''])"

datatype 'a member = Own 'a | Inherited | Undefined

definition read_member :: "heap \<Rightarrow> (string \<rightharpoonup> ref) \<Rightarrow> string \<Rightarrow> ref member" where
  "read_member h obj name =
     (case obj name of
        Some val \<Rightarrow> Own val
      | None \<Rightarrow>
          (case obj ''__proto__'' of
             None \<Rightarrow> if name \<in> set Object_prototype_names then Inherited else Undefined
           | Some proto \<Rightarrow>
               if name \<in> set (member_names (h proto)) \<or> name \<in> set Object_prototype_names
               then Inherited else Undefined))"

text \<open>
  The loop of lines 139 to 145 over the rest of \<^verbatim>\<open>newResources\<close>; \<open>resources'\<close> is the
  array \<^verbatim>\<open>resources\<close> the loop pushes to. \<open>currentResourcesMap\<close> is the map built
  from the current manifest. \<^verbatim>\<open>currentResource.md5\<close> throws when the read gave
  \<^verbatim>\<open>undefined\<close>, and is \<^verbatim>\<open>undefined\<close>, hence different from the string
  \<^verbatim>\<open>newResource.md5\<close>, when the read gave an inherited value.
\<close>

fun calc_loop :: "heap \<Rightarrow> (string \<rightharpoonup> ref) \<Rightarrow> ref list \<Rightarrow> ref list \<Rightarrow> error + ref list" where
  "calc_loop h currentResourcesMap [] resources' = Inr resources'"
| "calc_loop h currentResourcesMap (newResource # rest) resources' =
     (case read_member h currentResourcesMap (path (h newResource)) of
        Undefined \<Rightarrow> Inl TypeError
      | Inherited \<Rightarrow> calc_loop h currentResourcesMap rest (resources' @ [newResource])
      | Own currentResource \<Rightarrow>
          if md5 (h newResource) \<noteq> md5 (h currentResource)
          then calc_loop h currentResourcesMap rest (resources' @ [newResource])
          else calc_loop h currentResourcesMap rest resources')"

definition calcNewResource :: "world \<Rightarrow> error + ref list" where
  "calcNewResource w =
     (case currentManifest w of
        None \<Rightarrow>
          (case newManifest w of
             None \<Rightarrow> Inl TypeError
           | Some new \<Rightarrow> Inr (resources (js new)))
      | Some current \<Rightarrow>
          (let currentResourcesMap = arrayToMap (resources (js current)) (\<lambda>r. path (heap w r))
           in case newManifest w of
                None \<Rightarrow> Inl TypeError
              | Some new \<Rightarrow>
                  (case resouces (js new) of
                     None \<Rightarrow> Inl TypeError
                   | Some newResources \<Rightarrow> calc_loop (heap w) currentResourcesMap newResources [])))"

section \<open>_fetchNewManifest\<close>


section \<open>_loadCurrentManifest\<close>

text \<open>
  One transaction with the error callback \<^verbatim>\<open>error\<close>, which writes the error to the
  console and does nothing else. The transaction creates the table \<^verbatim>\<open>manifest\<close> when
  it is missing and selects its rows. Without a row the callback is called and
  \<^verbatim>\<open>_currentManifest\<close> keeps its value. Otherwise the first row is decoded; an
  exception of \<^verbatim>\<open>JSON.parse\<close> in the statement callback makes the transaction fail:
  it is rolled back and \<^verbatim>\<open>error\<close> runs with the SQL error of the transaction.
  \<open>manifest_rows\<close> are the rows the \<^verbatim>\<open>SELECT\<close> returns, none when the table has
  just been created.
\<close>

definition manifest_rows :: "database \<Rightarrow> string list" where
  "manifest_rows db = (case manifest_table db of None \<Rightarrow> [] | Some rs \<Rightarrow> rs)"

definition loadCurrentManifest :: "env \<Rightarrow> world \<Rightarrow> world \<times> unit outcome" where
  "loadCurrentManifest e w =
     (if \<not> load_ok e then (w\<lparr>console := console w @ [SQLError]\<rparr>, Stalled)
      else
        (let rows = manifest_rows (database w);
             created = (database w)\<lparr>manifest_table := Some rows\<rparr>
         in case rows of
              [] \<Rightarrow> (w\<lparr>database := created\<rparr>, Called ())
            | row # _ \<Rightarrow>
                (case JSON_parse e row of
                   Inl err \<Rightarrow> (w\<lparr>console := console w @ [SQLError]\<rparr>, Stalled)
                 | Inr m \<Rightarrow> (w\<lparr>database := created, currentManifest := m\<rparr>, Called ()))))"

section \<open>_fetchResources\<close>

text \<open>
  The inner function \<^verbatim>\<open>fetch\<close>, with the variables it shares with its caller as
  arguments: the array, \<^verbatim>\<open>index\<close> and the object store. When \<^verbatim>\<open>index\<close> has reached
  the length, the callback receives the array. Otherwise a GET request for
  \<^verbatim>\<open>res.path\<close> is sent; its load event assigns \<^verbatim>\<open>res.content\<close>, increments
  \<^verbatim>\<open>index\<close> and calls \<^verbatim>\<open>fetch\<close> again. No other handler is set. An index beyond
  the length makes \<^verbatim>\<open>res\<close> undefined and \<^verbatim>\<open>res.path\<close> throw; counting from 0 never
  gets there.
\<close>

function fetch :: "(string \<Rightarrow> string option) \<Rightarrow> ref list \<Rightarrow> nat \<Rightarrow> heap \<Rightarrow> heap \<times> ref list outcome" where
  "fetch srv resources' index h =
     (if length resources' = index then (h, Called resources')
      else if length resources' < index then (h, Raised TypeError)
      else
        (let res = resources' ! index
         in case srv (path (h res)) of
              None \<Rightarrow> (h, Stalled)
            | Some responseText \<Rightarrow>
                fetch srv resources' (index + 1) (h(res := (h res)\<lparr>content := Some responseText\<rparr>))))"
  by pat_completeness auto
termination
  by (relation "measure (\<lambda>(srv, resources', index, h). length resources' - index)") auto

declare fetch.simps [simp del]

definition fetchResources :: "env \<Rightarrow> ref list \<Rightarrow> world \<Rightarrow> world \<times> ref list outcome" where
  "fetchResources e resources' w =
     (case fetch (server e) resources' 0 (heap w) of (h, out) \<Rightarrow> (w\<lparr>heap := h\<rparr>, out))"

section \<open>_saveResources\<close>

text \<open>
  The loop of the transaction: one \<^verbatim>\<open>INSERT OR REPLACE INTO js\<close> for each resource,
  with \<^verbatim>\<open>path\<close> the primary key and the row made of the four members of the object.
\<close>

fun insert_or_replace :: "heap \<Rightarrow> ref list \<Rightarrow> (string \<rightharpoonup> descriptor) \<Rightarrow> (string \<rightharpoonup> descriptor)" where
  "insert_or_replace h [] tbl = tbl"
| "insert_or_replace h (res # rest) tbl = insert_or_replace h rest (tbl(path (h res) \<mapsto> h res))"

text \<open>
  One transaction with the error callback \<^verbatim>\<open>error\<close>, which writes to the console, and
  the success callback, which calls the callback. The transaction creates the table
  \<^verbatim>\<open>js\<close> when it is missing and runs the loop. It has no other statement.
\<close>

definition saveResources :: "env \<Rightarrow> ref list \<Rightarrow> world \<Rightarrow> world \<times> unit outcome" where
  "saveResources e resources' w =
     (if \<not> save_ok e then (w\<lparr>console := console w @ [SQLError]\<rparr>, Stalled)
      else
        (let tbl = (case js_table (database w) of None \<Rightarrow> Map.empty | Some t \<Rightarrow> t)
         in (w\<lparr>database := (database w)\<lparr>js_table := Some (insert_or_replace (heap w) resources' tbl)\<rparr>\<rparr>,
             Called ())))"

section \<open>_complete and init\<close>




section \<open>Example inputs\<close>

text \<open>
  An installer as the page creates it: the three fields are \<^verbatim>\<open>null\<close>, nothing has been
  written to the console and the completion callback has not been called.
\<close>

definition fresh :: "heap \<Rightarrow> database \<Rightarrow> world" where
  "fresh h db =
     \<lparr>manifestUrl = None, newManifest = None, currentManifest = None,
      heap = h, database = db, console = [], completions = 0\<rparr>"

text \<open>
  Four descriptor objects. Objects 0 and 1 belong to the manifest the server publishes,
  objects 2 and 3 to manifests recorded earlier: object 2 has the content of object 0,
  object 3 has the path of object 1 and another checksum.
\<close>

definition ex_heap :: heap where
  "ex_heap r =
     (if r = 0 then \<lparr>path = ''a.js'', md5 = ''h1'', time = ''t1'', content = None\<rparr>
      else if r = 1 then \<lparr>path = ''b.js'', md5 = ''h2'', time = ''t2'', content = None\<rparr>
      else if r = 2 then \<lparr>path = ''a.js'', md5 = ''h1'', time = ''t1'', content = None\<rparr>
      else \<lparr>path = ''b.js'', md5 = ''h1'', time = ''t0'', content = None\<rparr>)"

definition ex_remote :: manifest where
  "ex_remote = \<lparr>js = \<lparr>resources = [0, 1], resouces = None\<rparr>\<rparr>"

definition ex_remote_a :: manifest where
  "ex_remote_a = \<lparr>js = \<lparr>resources = [0], resouces = None\<rparr>\<rparr>"

definition ex_remote_both :: manifest where
  "ex_remote_both = \<lparr>js = \<lparr>resources = [0, 1], resouces = Some [0, 1]\<rparr>\<rparr>"

definition ex_stored_a :: manifest where
  "ex_stored_a = \<lparr>js = \<lparr>resources = [2], resouces = None\<rparr>\<rparr>"

definition ex_stored_ab :: manifest where
  "ex_stored_ab = \<lparr>js = \<lparr>resources = [2, 3], resouces = None\<rparr>\<rparr>"

definition ex_text :: string where
  "ex_text = ''{\"js\":{\"resources\":[{\"path\":\"a.js\",\"md5\":\"h1\",\"time\":\"t1\"},{\"path\":\"b.js\",\"md5\":\"h2\",\"time\":\"t2\"}]}}''"

definition ex_server :: "string \<Rightarrow> string option" where
  "ex_server url =
     (if url = ''manifest.json'' then Some ex_text
      else if url = ''a.js'' then Some ''A''
      else if url = ''b.js'' then Some ''B''
      else None)"

definition ex_server_b_down :: "string \<Rightarrow> string option" where
  "ex_server_b_down url =
     (if url = ''manifest.json'' then Some ex_text
      else if url = ''a.js'' then Some ''A''
      else None)"

definition ex_parse :: "string \<Rightarrow> error + manifest option" where
  "ex_parse text =
     (if text = ex_text then Inr (Some ex_remote)
      else if text = ''null'' then Inr None
      else Inl SyntaxError)"

text \<open>A server that answers the request for \<^verbatim>\<open>b.js\<close> with status 404 and an error page.\<close>

definition ex_server_b_404 :: "string \<Rightarrow> string option" where
  "ex_server_b_404 url =
     (if url = ''manifest.json'' then Some ex_text
      else if url = ''a.js'' then Some ''A''
      else if url = ''b.js'' then Some ''Not Found''
      else None)"

definition ex_status_b_404 :: "string \<Rightarrow> nat" where
  "ex_status_b_404 url = (if url = ''b.js'' then 404 else 200)"

definition ex_status_ok :: "string \<Rightarrow> nat" where
  "ex_status_ok url = 200"

definition ex_env :: env where
  "ex_env = \<lparr>server = ex_server, status = ex_status_ok, JSON_parse = ex_parse,
     load_ok = True, save_ok = True\<rparr>"

definition ex_env_b_down :: env where
  "ex_env_b_down = \<lparr>server = ex_server_b_down, status = ex_status_ok, JSON_parse = ex_parse,
     load_ok = True, save_ok = True\<rparr>"

definition ex_env_b_404 :: env where
  "ex_env_b_404 = \<lparr>server = ex_server_b_404, status = ex_status_b_404, JSON_parse = ex_parse,
     load_ok = True, save_ok = True\<rparr>"



definition ex_db_empty :: database where
  "ex_db_empty = \<lparr>manifest_table = None, js_table = None\<rparr>"

definition ex_db_null :: database where
  "ex_db_null = \<lparr>manifest_table = Some [''null''], js_table = None\<rparr>"

definition ex_db_corrupt :: database where
  "ex_db_corrupt = \<lparr>manifest_table = Some [''{\"js\":''], js_table = None\<rparr>"

text \<open>
  A first run on an empty database, after the manifest has been fetched, and after both
  resources have been fetched as well.
\<close>

definition ex_installing :: world where
  "ex_installing = (fresh ex_heap ex_db_empty)\<lparr>newManifest := Some ex_remote\<rparr>"

definition ex_fetched :: world where
  "ex_fetched = fst (fetchResources ex_env [0, 1] ex_installing)"

section \<open>arrayToMap: the last element wins\<close>

lemma arrayToMap_loop_lookup:
  "arrayToMap_loop array key result k =
     (if filter (\<lambda>val. key val = k) array = [] then result k
      else Some (last (filter (\<lambda>val. key val = k) array)))"
  by (induction array arbitrary: result) auto

lemma filter_own_key:
  "distinct (map key array) \<Longrightarrow> val \<in> set array \<Longrightarrow> filter (\<lambda>v. key v = key val) array = [val]"
proof (induction array)
  case Nil
  then show ?case by simp
next
  case (Cons a array)
  then show ?case by (auto simp: filter_empty_conv image_iff)
qed

text \<open>
  C10. Under each key value, the result of \<open>arrayToMap\<close> holds the last element of the
  array that carries this value at the key; under a value no element carries, the
  assignments have set nothing.
  When the elements have pairwise distinct values at the key, every element is found
  under its own key value.
\<close>

theorem arrayToMap_last_wins:
  "arrayToMap array key k =
     (if filter (\<lambda>val. key val = k) array = [] then None
      else Some (last (filter (\<lambda>val. key val = k) array)))
   \<and> (distinct (map key array) \<longrightarrow> (\<forall>val \<in> set array. arrayToMap array key (key val) = Some val))"
  by (simp add: arrayToMap_def arrayToMap_loop_lookup filter_own_key)

theorem arrayToMap_last_wins_witness:
  "distinct (map (\<lambda>r. path (ex_heap r)) [0, 1])
   \<and> arrayToMap [0, 1] (\<lambda>r. path (ex_heap r)) ''b.js'' = Some 1
   \<and> arrayToMap [0, 1, 2] (\<lambda>r. path (ex_heap r)) ''a.js'' = Some 2"
  using arrayToMap_last_wins [of "[0, 1]" "\<lambda>r. path (ex_heap r)" "''b.js''"]
    arrayToMap_last_wins [of "[0, 1, 2]" "\<lambda>r. path (ex_heap r)" "''a.js''"]
  by (simp add: ex_heap_def)

section \<open>_calcNewResource without a current manifest\<close>

text \<open>
  C7. When \<^verbatim>\<open>_currentManifest\<close> is \<^verbatim>\<open>null\<close>, \<^verbatim>\<open>_calcNewResource\<close> returns the
  resources of the new manifest: the same descriptor objects, all of them, in the order
  of the manifest.
\<close>

theorem calcNewResource_full_install:
  "currentManifest w = None \<Longrightarrow> newManifest w = Some incoming \<Longrightarrow>
     calcNewResource w = Inr (resources (js incoming))"
  by (simp add: calcNewResource_def)

theorem calcNewResource_full_install_witness:
  "currentManifest ((fresh ex_heap ex_db_empty)\<lparr>newManifest := Some ex_remote\<rparr>) = None
   \<and> newManifest ((fresh ex_heap ex_db_empty)\<lparr>newManifest := Some ex_remote\<rparr>) = Some ex_remote
   \<and> calcNewResource ((fresh ex_heap ex_db_empty)\<lparr>newManifest := Some ex_remote\<rparr>) = Inr [0, 1]"
  using calcNewResource_full_install
    [of "(fresh ex_heap ex_db_empty)\<lparr>newManifest := Some ex_remote\<rparr>" ex_remote]
  by (simp add: fresh_def ex_remote_def)

section \<open>_fetchResources\<close>

lemma fetch_step:
  "index < length rs \<Longrightarrow> srv (path (h (rs ! index))) = Some t \<Longrightarrow>
     fetch srv rs index h = fetch srv rs (Suc index) (h(rs ! index := (h (rs ! index))\<lparr>content := Some t\<rparr>))"
  by (simp add: fetch.simps [of srv rs index h] Let_def)

text \<open>A request without a load event, at or after \<open>index\<close>, leaves the callback uncalled.\<close>

lemma fetch_stalls:
  "index \<le> i \<Longrightarrow> i < length rs \<Longrightarrow> srv (path (h (rs ! i))) = None
     \<Longrightarrow> snd (fetch srv rs index h) = Stalled"
proof (induction "i - index" arbitrary: index h)
  case 0
  then have "index = i" by simp
  with 0 show ?case by (simp add: fetch.simps [of srv rs i h])
next
  case (Suc n)
  then have lt: "index < length rs" and le: "Suc index \<le> i" by simp_all
  show ?case
  proof (cases "srv (path (h (rs ! index)))")
    case None
    with lt show ?thesis by (simp add: fetch.simps [of srv rs index h])
  next
    case (Some t)
    let ?h = "h(rs ! index := (h (rs ! index))\<lparr>content := Some t\<rparr>)"
    have "srv (path (?h (rs ! i))) = None" using Suc.prems(3) Some by auto
    moreover have "n = i - Suc index" using Suc.hyps(2) by simp
    ultimately have "snd (fetch srv rs (Suc index) ?h) = Stalled"
      using Suc.hyps(1) [of "Suc index" ?h] le Suc.prems(2) by simp
    moreover have "fetch srv rs index h = fetch srv rs (Suc index) ?h"
      using lt Some by (rule fetch_step)
    ultimately show ?thesis by (simp only:)
  qed
qed

text \<open>
  When every request from \<open>index\<close> on gets its load event, the callback receives the
  array, and exactly the objects from \<open>index\<close> on have been given their content.
\<close>

lemma fetch_completes:
  "index \<le> length rs \<Longrightarrow> \<forall>r \<in> set (drop index rs). srv (path (h r)) \<noteq> None
     \<Longrightarrow> fetch srv rs index h =
          (\<lambda>r. if r \<in> set (drop index rs) then (h r)\<lparr>content := srv (path (h r))\<rparr> else h r, Called rs)"
proof (induction "length rs - index" arbitrary: index h)
  case 0
  then have "length rs = index" by simp
  then show ?case by (simp add: fetch.simps [of srv rs index h])
next
  case (Suc n)
  then have lt: "index < length rs" by simp
  have dr: "drop index rs = rs ! index # drop (Suc index) rs"
    using lt by (simp add: Cons_nth_drop_Suc)
  with Suc.prems(2) obtain t where t: "srv (path (h (rs ! index))) = Some t" by auto
  let ?h = "h(rs ! index := (h (rs ! index))\<lparr>content := Some t\<rparr>)"
  have served: "\<forall>r \<in> set (drop (Suc index) rs). srv (path (?h r)) \<noteq> None"
    using Suc.prems(2) dr by simp
  have n: "n = length rs - Suc index" using Suc.hyps(2) by simp
  have "fetch srv rs (Suc index) ?h =
       (\<lambda>r. if r \<in> set (drop (Suc index) rs) then (?h r)\<lparr>content := srv (path (?h r))\<rparr> else ?h r, Called rs)"
    using Suc.hyps(1) [of "Suc index" ?h] n served lt by simp
  also have "(\<lambda>r. if r \<in> set (drop (Suc index) rs) then (?h r)\<lparr>content := srv (path (?h r))\<rparr> else ?h r)
        = (\<lambda>r. if r \<in> set (drop index rs) then (h r)\<lparr>content := srv (path (h r))\<rparr> else h r)"
    using t by (auto simp: dr fun_eq_iff)
  finally have rest: "fetch srv rs (Suc index) ?h =
       (\<lambda>r. if r \<in> set (drop index rs) then (h r)\<lparr>content := srv (path (h r))\<rparr> else h r, Called rs)" .
  have "fetch srv rs index h = fetch srv rs (Suc index) ?h"
    using lt t by (rule fetch_step)
  with rest show ?case by (simp only:)
qed

text \<open>
  C9. \<^verbatim>\<open>_fetchResources\<close> works in place. Its callback is called exactly when each
  request gets its load event, and receives the array \<^verbatim>\<open>_fetchResources\<close> was given:
  the same references in the same order. Each object of the array is then the object it
  was with \<^verbatim>\<open>content\<close> set to the text the server returned for its path, and \<^verbatim>\<open>path\<close>,
  \<^verbatim>\<open>md5\<close> and \<^verbatim>\<open>time\<close> as before; no other object and nothing else in the state
  changes.
\<close>

theorem fetchResources_in_place:
  "(snd (fetchResources e resources' w) = Called rs) =
      (rs = resources' \<and> (\<forall>r \<in> set resources'. server e (path (heap w r)) \<noteq> None))
   \<and> ((\<forall>r \<in> set resources'. server e (path (heap w r)) \<noteq> None) \<longrightarrow>
        (\<forall>r. heap (fst (fetchResources e resources' w)) r =
          (if r \<in> set resources' then (heap w r)\<lparr>content := server e (path (heap w r))\<rparr> else heap w r))
        \<and> fst (fetchResources e resources' w) = w\<lparr>heap := heap (fst (fetchResources e resources' w))\<rparr>)"
proof (cases "\<forall>r \<in> set resources'. server e (path (heap w r)) \<noteq> None")
  case True
  then show ?thesis
    using fetch_completes [of 0 resources' "server e" "heap w"]
    by (auto simp add: fetchResources_def)
next
  case False
  then obtain i where "i < length resources'" "server e (path (heap w (resources' ! i))) = None"
    by (auto simp: in_set_conv_nth)
  then have "snd (fetch (server e) resources' 0 (heap w)) = Stalled"
    using fetch_stalls [of 0 i resources' "server e" "heap w"] by simp
  with False show ?thesis
    by (auto simp add: fetchResources_def case_prod_beta)
qed

theorem fetchResources_in_place_witness:
  "server ex_env (path (heap (fresh ex_heap ex_db_empty) 0)) \<noteq> None
   \<and> server ex_env (path (heap (fresh ex_heap ex_db_empty) 1)) \<noteq> None
   \<and> snd (fetchResources ex_env [0, 1] (fresh ex_heap ex_db_empty)) = Called [0, 1]
   \<and> heap (fst (fetchResources ex_env [0, 1] (fresh ex_heap ex_db_empty))) 0 =
       \<lparr>path = ''a.js'', md5 = ''h1'', time = ''t1'', content = Some ''A''\<rparr>
   \<and> heap (fst (fetchResources ex_env [0, 1] (fresh ex_heap ex_db_empty))) 1 =
       \<lparr>path = ''b.js'', md5 = ''h2'', time = ''t2'', content = Some ''B''\<rparr>
   \<and> heap (fst (fetchResources ex_env [0, 1] (fresh ex_heap ex_db_empty))) 2 = ex_heap 2"
  using fetchResources_in_place [of ex_env "[0, 1]" "fresh ex_heap ex_db_empty" "[0, 1]"]
  by (simp add: fresh_def ex_env_def ex_server_def ex_heap_def)

text \<open>
  Where the chain of requests stops: at the first request without a load event, with
  exactly the objects before it given their content.
\<close>

lemma fetch_stalls_heap:
  "index \<le> i \<Longrightarrow> i < length rs \<Longrightarrow> srv (path (h (rs ! i))) = None
     \<Longrightarrow> \<forall>j. index \<le> j \<and> j < i \<longrightarrow> srv (path (h (rs ! j))) \<noteq> None
     \<Longrightarrow> fetch srv rs index h =
          (\<lambda>r. if r \<in> set (take (i - index) (drop index rs))
                then (h r)\<lparr>content := srv (path (h r))\<rparr> else h r, Stalled)"
proof (induction "i - index" arbitrary: index h)
  case 0
  then have "index = i" by simp
  with 0 show ?case by (simp add: fetch.simps [of srv rs i h])
next
  case (Suc n)
  then have lt: "index < length rs" and le: "Suc index \<le> i" and lti: "index < i" by simp_all
  from Suc.prems(4) lti obtain t where t: "srv (path (h (rs ! index))) = Some t" by auto
  let ?h = "h(rs ! index := (h (rs ! index))\<lparr>content := Some t\<rparr>)"
  have fails: "srv (path (?h (rs ! i))) = None" using Suc.prems(3) t by auto
  have served: "\<forall>j. Suc index \<le> j \<and> j < i \<longrightarrow> srv (path (?h (rs ! j))) \<noteq> None"
    using Suc.prems(4) by simp
  have n: "n = i - Suc index" using Suc.hyps(2) by simp
  have tk: "take (i - index) (drop index rs) = rs ! index # take (i - Suc index) (drop (Suc index) rs)"
  proof -
    have "i - index = Suc (i - Suc index)" using lti by simp
    moreover have "drop index rs = rs ! index # drop (Suc index) rs"
      using lt by (simp add: Cons_nth_drop_Suc)
    ultimately show ?thesis by simp
  qed
  have "fetch srv rs (Suc index) ?h =
       (\<lambda>r. if r \<in> set (take (i - Suc index) (drop (Suc index) rs))
             then (?h r)\<lparr>content := srv (path (?h r))\<rparr> else ?h r, Stalled)"
    using Suc.hyps(1) [of "Suc index" ?h] n le Suc.prems(2) fails served by simp
  also have "(\<lambda>r. if r \<in> set (take (i - Suc index) (drop (Suc index) rs))
             then (?h r)\<lparr>content := srv (path (?h r))\<rparr> else ?h r)
        = (\<lambda>r. if r \<in> set (take (i - index) (drop index rs))
             then (h r)\<lparr>content := srv (path (h r))\<rparr> else h r)"
    using t by (auto simp: tk fun_eq_iff)
  finally have rest: "fetch srv rs (Suc index) ?h =
       (\<lambda>r. if r \<in> set (take (i - index) (drop index rs))
             then (h r)\<lparr>content := srv (path (h r))\<rparr> else h r, Stalled)" .
  have "fetch srv rs index h = fetch srv rs (Suc index) ?h"
    using lt t by (rule fetch_step)
  with rest show ?case by (simp only:)
qed

text \<open>
  C4 as stated fails: with two resources of which the second cannot be retrieved,
  \<^verbatim>\<open>_fetchResources\<close> does not end with an error that names the path. Its callback is
  never called and nothing is thrown, and the first object has received its content.
\<close>

theorem fetchResources_failure_counterexample:
  "server ex_env_b_down (path (ex_heap 1)) = None
   \<and> snd (fetchResources ex_env_b_down [0, 1] (fresh ex_heap ex_db_empty)) = Stalled
   \<and> console (fst (fetchResources ex_env_b_down [0, 1] (fresh ex_heap ex_db_empty))) = []
   \<and> content (heap (fst (fetchResources ex_env_b_down [0, 1] (fresh ex_heap ex_db_empty))) 0) = Some ''A''"
  by (simp add: fetchResources_def fetch.simps fresh_def ex_env_b_down_def ex_server_b_down_def
      ex_heap_def split: prod.splits)

text \<open>
  C4, amended. For \<^verbatim>\<open>_fetchResources\<close> a retrieval fails only when its request gets no
  load event. An answer with an HTTP error status is a load event like any other: its
  body becomes the content, and when every request gets a load event the callback
  receives the whole array. When the request for some resource gets no load event, the
  callback is never called and nothing is thrown: the caller receives no result, partial
  or whole, and no error that names the path, and nothing is written to the console.
  Exactly the objects before the first request without a load event have been given
  their content, in place; no other object and nothing else in the state has changed.
\<close>

theorem fetchResources_failure_stalls:
  "(snd (fetchResources e resources' w) = Stalled) =
      (\<exists>r \<in> set resources'. server e (path (heap w r)) = None)
   \<and> ((\<forall>r \<in> set resources'. server e (path (heap w r)) \<noteq> None) \<longrightarrow>
        snd (fetchResources e resources' w) = Called resources')
   \<and> (\<forall>i. i < length resources' \<and> server e (path (heap w (resources' ! i))) = None
          \<and> (\<forall>j < i. server e (path (heap w (resources' ! j))) \<noteq> None) \<longrightarrow>
        (\<forall>r. heap (fst (fetchResources e resources' w)) r =
           (if r \<in> set (take i resources')
            then (heap w r)\<lparr>content := server e (path (heap w r))\<rparr> else heap w r)))
   \<and> fst (fetchResources e resources' w) = w\<lparr>heap := heap (fst (fetchResources e resources' w))\<rparr>"
proof (intro conjI allI impI)
  show "(snd (fetchResources e resources' w) = Stalled) =
      (\<exists>r \<in> set resources'. server e (path (heap w r)) = None)"
  proof (cases "\<forall>r \<in> set resources'. server e (path (heap w r)) \<noteq> None")
    case True
    then show ?thesis
      using fetch_completes [of 0 resources' "server e" "heap w"]
      by (auto simp add: fetchResources_def)
  next
    case False
    then obtain i where "i < length resources'" "server e (path (heap w (resources' ! i))) = None"
      by (auto simp: in_set_conv_nth)
    then have "snd (fetch (server e) resources' 0 (heap w)) = Stalled"
      using fetch_stalls [of 0 i resources' "server e" "heap w"] by simp
    with False show ?thesis
      by (auto simp add: fetchResources_def case_prod_beta)
  qed
next
  assume "\<forall>r \<in> set resources'. server e (path (heap w r)) \<noteq> None"
  then show "snd (fetchResources e resources' w) = Called resources'"
    using fetch_completes [of 0 resources' "server e" "heap w"]
    by (simp add: fetchResources_def)
next
  fix i r
  assume "i < length resources' \<and> server e (path (heap w (resources' ! i))) = None
          \<and> (\<forall>j < i. server e (path (heap w (resources' ! j))) \<noteq> None)"
  then have "fetch (server e) resources' 0 (heap w) =
       (\<lambda>r. if r \<in> set (take (i - 0) (drop 0 resources'))
             then (heap w r)\<lparr>content := server e (path (heap w r))\<rparr> else heap w r, Stalled)"
    using fetch_stalls_heap [of 0 i resources' "server e" "heap w"] by simp
  then show "heap (fst (fetchResources e resources' w)) r =
           (if r \<in> set (take i resources')
            then (heap w r)\<lparr>content := server e (path (heap w r))\<rparr> else heap w r)"
    by (simp add: fetchResources_def)
next
  show "fst (fetchResources e resources' w) = w\<lparr>heap := heap (fst (fetchResources e resources' w))\<rparr>"
    by (simp add: fetchResources_def case_prod_beta)
qed

theorem fetchResources_failure_stalls_witness:
  "(1::nat) < length [0::nat, 1]
   \<and> server ex_env_b_down (path (heap (fresh ex_heap ex_db_empty) ([0, 1] ! 1))) = None
   \<and> server ex_env_b_down (path (heap (fresh ex_heap ex_db_empty) ([0, 1] ! 0))) \<noteq> None
   \<and> snd (fetchResources ex_env_b_down [0, 1] (fresh ex_heap ex_db_empty)) = Stalled
   \<and> heap (fst (fetchResources ex_env_b_down [0, 1] (fresh ex_heap ex_db_empty))) 0 =
       \<lparr>path = ''a.js'', md5 = ''h1'', time = ''t1'', content = Some ''A''\<rparr>
   \<and> heap (fst (fetchResources ex_env_b_down [0, 1] (fresh ex_heap ex_db_empty))) 1 = ex_heap 1
   \<and> heap (fst (fetchResources ex_env_b_down [0, 1] (fresh ex_heap ex_db_empty))) 2 = ex_heap 2
   \<and> status ex_env_b_404 ''b.js'' = 404
   \<and> server ex_env_b_404 (path (heap (fresh ex_heap ex_db_empty) 0)) \<noteq> None
   \<and> server ex_env_b_404 (path (heap (fresh ex_heap ex_db_empty) 1)) \<noteq> None
   \<and> snd (fetchResources ex_env_b_404 [0, 1] (fresh ex_heap ex_db_empty)) = Called [0, 1]"
  using fetchResources_failure_stalls [of ex_env_b_down "[0, 1]" "fresh ex_heap ex_db_empty"]
    fetchResources_failure_stalls [of ex_env_b_404 "[0, 1]" "fresh ex_heap ex_db_empty"]
  by (simp add: fetchResources_def fetch.simps fresh_def ex_env_b_down_def ex_server_b_down_def
      ex_env_b_404_def ex_server_b_404_def ex_status_b_404_def ex_heap_def)

section \<open>_calcNewResource with a current manifest\<close>

text \<open>
  What the loop computes: it throws as soon as the read for a path gives \<^verbatim>\<open>undefined\<close>,
  and otherwise keeps, in order, the descriptors whose checksum differs from that of the
  entry the read gives.
\<close>

lemma calc_loop_result:
  "calc_loop h m rs acc =
     (if \<forall>r \<in> set rs. read_member h m (path (h r)) \<noteq> Undefined
      then Inr (acc @ filter (\<lambda>r. case read_member h m (path (h r)) of
                                   Own c \<Rightarrow> md5 (h r) \<noteq> md5 (h c) | Inherited \<Rightarrow> True | Undefined \<Rightarrow> True) rs)
      else Inl TypeError)"
  by (induction rs arbitrary: acc) (auto split: member.splits)

text \<open>
  A path that names a member of \<^verbatim>\<open>Object.prototype\<close> and has no entry of its own does
  not make the loop throw: the descriptor is pushed.
\<close>

lemma calc_loop_inherited_name:
  "m (path (h r)) = None \<Longrightarrow> path (h r) \<in> set Object_prototype_names \<Longrightarrow>
     calc_loop h m [r] acc = Inr (acc @ [r])"
  by (simp add: read_member_def split: option.splits)

text \<open>
  With a current manifest, the new resources are read from the member \<^verbatim>\<open>resouces\<close>.
  A manifest without this member makes \<^verbatim>\<open>newResources.length\<close> throw.
\<close>

lemma calcNewResource_reads_resouces:
  "currentManifest w = Some current \<Longrightarrow> newManifest w = Some new \<Longrightarrow> resouces (js new) = None
     \<Longrightarrow> calcNewResource w = Inl TypeError"
  by (simp add: calcNewResource_def)

text \<open>
  C1. A descriptor of the new manifest whose path has no entry in the current manifest
  is to be part of the result. The code throws instead. The current manifest lists
  \<^verbatim>\<open>a.js\<close>, the new one \<^verbatim>\<open>a.js\<close> and \<^verbatim>\<open>b.js\<close>: \<^verbatim>\<open>_calcNewResource\<close> ends with a
  \<open>TypeError\<close> at \<^verbatim>\<open>newResources.length\<close>. When the new manifest carries the same
  array under \<^verbatim>\<open>resouces\<close> as well, it ends with a \<open>TypeError\<close> at
  \<^verbatim>\<open>currentResource.md5\<close>, for \<^verbatim>\<open>b.js\<close>.
\<close>

theorem calcNewResource_new_path_faults:
  "calcNewResource ((fresh ex_heap ex_db_empty)
      \<lparr>newManifest := Some ex_remote, currentManifest := Some ex_stored_a\<rparr>) = Inl TypeError
   \<and> calcNewResource ((fresh ex_heap ex_db_empty)
      \<lparr>newManifest := Some ex_remote_both, currentManifest := Some ex_stored_a\<rparr>) = Inl TypeError"
  by (simp add: calcNewResource_def fresh_def ex_remote_def ex_remote_both_def ex_stored_a_def
      arrayToMap_def read_member_def Object_prototype_names_def ex_heap_def)

text \<open>
  C3. Two manifests with the same content are to give the empty result. The code throws
  instead. The current and the new manifest both list \<^verbatim>\<open>a.js\<close> with checksum \<^verbatim>\<open>h1\<close>:
  \<^verbatim>\<open>_calcNewResource\<close> ends with a \<open>TypeError\<close>, also when both are the same object.
\<close>

theorem calcNewResource_identical_faults:
  "calcNewResource ((fresh ex_heap ex_db_empty)
      \<lparr>newManifest := Some ex_remote_a, currentManifest := Some ex_stored_a\<rparr>) = Inl TypeError
   \<and> calcNewResource ((fresh ex_heap ex_db_empty)
      \<lparr>newManifest := Some ex_remote_a, currentManifest := Some ex_remote_a\<rparr>) = Inl TypeError"
  by (simp add: calcNewResource_def fresh_def ex_remote_a_def ex_stored_a_def)

text \<open>
  C8. With a current manifest, the result is to hold the changed descriptors of the new
  manifest's \<^verbatim>\<open>resources\<close>, in order, and none whose path is in the current manifest
  with the same checksum. The code throws instead. The current manifest lists \<^verbatim>\<open>a.js\<close>
  with \<^verbatim>\<open>h1\<close> and \<^verbatim>\<open>b.js\<close> with \<^verbatim>\<open>h1\<close>, the new one \<^verbatim>\<open>a.js\<close> with \<^verbatim>\<open>h1\<close> and
  \<^verbatim>\<open>b.js\<close> with \<^verbatim>\<open>h2\<close>: the result should be the descriptor of \<^verbatim>\<open>b.js\<close>, and
  \<^verbatim>\<open>_calcNewResource\<close> ends with a \<open>TypeError\<close>.
\<close>

theorem calcNewResource_changed_faults:
  "calcNewResource ((fresh ex_heap ex_db_empty)
      \<lparr>newManifest := Some ex_remote, currentManifest := Some ex_stored_ab\<rparr>) = Inl TypeError"
  by (simp add: calcNewResource_def fresh_def ex_remote_def ex_stored_ab_def)

section \<open>_saveResources and _loadCurrentManifest\<close>

text \<open>No statement of \<^verbatim>\<open>_saveResources\<close> writes to the table \<^verbatim>\<open>manifest\<close>.\<close>

lemma saveResources_keeps_manifest_table:
  "manifest_table (database (fst (saveResources e rs w))) = manifest_table (database w)"
  by (simp add: saveResources_def Let_def)

text \<open>
  C2. After a successful \<^verbatim>\<open>_saveResources\<close> the new manifest is to be what the next
  \<^verbatim>\<open>_loadCurrentManifest\<close> returns, also when no resource had changed. The code does
  not store it. On an empty database, with the new manifest listing \<^verbatim>\<open>a.js\<close> and
  \<^verbatim>\<open>b.js\<close>, \<^verbatim>\<open>_saveResources\<close> succeeds, for both fetched resources and for the
  empty array, and the row of \<^verbatim>\<open>a.js\<close> is in the table \<^verbatim>\<open>js\<close>; the table
  \<^verbatim>\<open>manifest\<close> is not there afterwards, and the next \<^verbatim>\<open>_loadCurrentManifest\<close> finds
  no row and leaves \<^verbatim>\<open>_currentManifest\<close> at \<^verbatim>\<open>null\<close>.
\<close>

theorem saveResources_manifest_not_stored:
  "snd (saveResources ex_env [0, 1] ex_fetched) = Called ()
   \<and> map_option (\<lambda>tbl. tbl ''a.js'') (js_table (database (fst (saveResources ex_env [0, 1] ex_fetched))))
       = Some (Some \<lparr>path = ''a.js'', md5 = ''h1'', time = ''t1'', content = Some ''A''\<rparr>)
   \<and> manifest_table (database (fst (saveResources ex_env [0, 1] ex_fetched))) = None
   \<and> snd (loadCurrentManifest ex_env (fst (saveResources ex_env [0, 1] ex_fetched))) = Called ()
   \<and> currentManifest (fst (loadCurrentManifest ex_env (fst (saveResources ex_env [0, 1] ex_fetched)))) = None
   \<and> snd (saveResources ex_env [] ex_installing) = Called ()
   \<and> currentManifest (fst (loadCurrentManifest ex_env (fst (saveResources ex_env [] ex_installing)))) = None"
  by (simp add: saveResources_def loadCurrentManifest_def manifest_rows_def ex_fetched_def
      fetchResources_def fetch.simps ex_installing_def
      fresh_def ex_env_def ex_server_def ex_heap_def ex_db_empty_def Let_def)

text \<open>
  C5 as stated fails. A stored record that is not JSON does not give an error outcome:
  the error goes to the console and the callback of \<^verbatim>\<open>_loadCurrentManifest\<close> is never
  called. A stored record \<^verbatim>\<open>null\<close> is not told apart from an empty table: the callback
  is called and \<^verbatim>\<open>_currentManifest\<close> is \<^verbatim>\<open>null\<close>.
\<close>

theorem loadCurrentManifest_counterexample:
  "loadCurrentManifest ex_env (fresh ex_heap ex_db_corrupt) =
     ((fresh ex_heap ex_db_corrupt)\<lparr>console := [SQLError]\<rparr>, Stalled)
   \<and> manifest_rows ex_db_null = [''null'']
   \<and> snd (loadCurrentManifest ex_env (fresh ex_heap ex_db_null)) = Called ()
   \<and> currentManifest (fst (loadCurrentManifest ex_env (fresh ex_heap ex_db_null))) = None"
  by (simp add: loadCurrentManifest_def manifest_rows_def fresh_def ex_env_def ex_db_corrupt_def
      ex_db_null_def ex_parse_def ex_text_def Let_def)

text \<open>
  C5, amended. \<^verbatim>\<open>_loadCurrentManifest\<close> calls its callback exactly when the
  transaction can be carried out and the table \<^verbatim>\<open>manifest\<close> has no row or its first row
  is decoded by \<^verbatim>\<open>JSON.parse\<close>. On an installer without a current manifest, the
  current manifest is then still \<^verbatim>\<open>null\<close> exactly when there is no row or the first
  row decodes to \<^verbatim>\<open>null\<close>. In every other case (a record that cannot be decoded, a
  transaction that cannot be carried out) the callback is never called and nothing is
  thrown: the database is as before and the only effect is one SQL error written to the
  console. The failure is not reported as the absence of a manifest, and not as an
  error to the caller either.
\<close>

theorem loadCurrentManifest_outcomes:
  "(snd (loadCurrentManifest e w) = Called ()) =
      (load_ok e \<and> (manifest_rows (database w) = []
         \<or> (\<exists>m. JSON_parse e (hd (manifest_rows (database w))) = Inr m)))
   \<and> (snd (loadCurrentManifest e w) = Called () \<and> currentManifest w = None \<longrightarrow>
        (currentManifest (fst (loadCurrentManifest e w)) = None) =
          (manifest_rows (database w) = [] \<or> JSON_parse e (hd (manifest_rows (database w))) = Inr None))
   \<and> (snd (loadCurrentManifest e w) \<noteq> Called () \<longrightarrow>
        snd (loadCurrentManifest e w) = Stalled
        \<and> fst (loadCurrentManifest e w) = w\<lparr>console := console w @ [SQLError]\<rparr>)"
  by (auto simp add: loadCurrentManifest_def Let_def split: sum.splits list.splits)

theorem loadCurrentManifest_outcomes_witness:
  "snd (loadCurrentManifest ex_env (fresh ex_heap ex_db_empty)) = Called ()
   \<and> currentManifest (fresh ex_heap ex_db_empty) = None
   \<and> manifest_rows (database (fresh ex_heap ex_db_empty)) = []
   \<and> currentManifest (fst (loadCurrentManifest ex_env (fresh ex_heap ex_db_empty))) = None
   \<and> snd (loadCurrentManifest ex_env (fresh ex_heap ex_db_corrupt)) \<noteq> Called ()
   \<and> snd (loadCurrentManifest ex_env (fresh ex_heap ex_db_corrupt)) = Stalled
   \<and> console (fst (loadCurrentManifest ex_env (fresh ex_heap ex_db_corrupt))) = [SQLError]"
  using loadCurrentManifest_outcomes [of ex_env "fresh ex_heap ex_db_empty"]
    loadCurrentManifest_outcomes [of ex_env "fresh ex_heap ex_db_corrupt"]
  by (simp add: manifest_rows_def fresh_def ex_env_def ex_db_empty_def ex_db_corrupt_def
      ex_parse_def ex_text_def)

section \<open>init: the completion callback\<close>










end
